theory Spec2Isabelle
  imports Complex_Main "HOL-Library.Char_ord" "HOL-Library.List_Lexorder"
    "HOL-Library.Product_Lexorder"
begin

section \<open>GreenpulseNG backend: emission records, aggregation and scenario simulation\<close>

text \<open>
  A shallow embedding of \<^verbatim>\<open>src/backend.py\<close>. Conventions:
  \<^item> Python \<^verbatim>\<open>float\<close> values (the SQLite \<^verbatim>\<open>REAL\<close> columns) are modelled as \<open>real\<close>:
    rounding, infinities and NaN are not modelled.
  \<^item> The SQLite table \<^verbatim>\<open>emissions\<close> is the list of its rows in rowid order, which is the
    order in which \<^verbatim>\<open>SELECT *\<close> without \<^verbatim>\<open>ORDER BY\<close> scans it. The autoincrement \<^verbatim>\<open>id\<close>
    column is left out: no endpoint reads it, and the table that \<^verbatim>\<open>to_sql(if_exists='replace')\<close>
    creates does not have it. The tables \<^verbatim>\<open>users\<close> and \<^verbatim>\<open>shares\<close> are never read or written
    by an endpoint and are left out as well.
  \<^item> SQLite is dynamically typed. A row of the model carries, for each text column, the text that
    was given to the column; the value SQLite keeps is that text under the affinity of the
    column (\<open>stored\<close>). The table made by \<^verbatim>\<open>init_db\<close> declares \<^verbatim>\<open>business_id\<close> and
    \<^verbatim>\<open>business_type\<close> as \<^verbatim>\<open>TEXT\<close>; the table made by \<^verbatim>\<open>to_sql(if_exists='replace')\<close>
    declares them after the dtype that pandas gave the column. The affinities of these two
    columns, the ones that the queries compare, are part of the state. The column \<^verbatim>\<open>user_id\<close>
    is \<^verbatim>\<open>TEXT\<close> in both tables.
  \<^item> An exception raised by a handler is the \<open>Inl\<close> branch of a sum type.
  \<^item> A pandas data frame with a group-by is a list of rows; \<^verbatim>\<open>groupby(k)[c].sum()\<close> is the
    list of (key, sum) pairs in ascending key order (pandas sorts group keys).
  \<^item> The collaborators outside the program (CSV parser, Prophet, reportlab) are not modelled:
    \<^verbatim>\<open>upload_csv\<close> takes the parsed data frame, with text columns parsed as strings and
    \<^verbatim>\<open>amount\<close>, \<^verbatim>\<open>emission_factor\<close> as numbers; \<^verbatim>\<open>get_forecast\<close> takes the model as a
    parameter; the drawing calls of the report are taken not to raise.
  \<^item> The caller identity is a parameter of every endpoint. In the source it is always
    \<^verbatim>\<open>DevUser()\<close>, whose \<^verbatim>\<open>id\<close> is 1 (\<open>DevUser_default\<close>).
\<close>

subsection \<open>Exceptions\<close>

datatype error =
    HTTPException nat string
  | NameError string
  | KeyError string
  | IndexError
  | ValueError

subsection \<open>Python's \<^verbatim>\<open>str\<close> on integers and \<^verbatim>\<open>repr\<close> on lists of strings\<close>

definition digit_char :: "nat \<Rightarrow> char" where
  "digit_char d = ''0123456789'' ! d"

function str_nat :: "nat \<Rightarrow> string" where
  "str_nat n = (if n < 10 then [digit_char n] else str_nat (n div 10) @ [digit_char (n mod 10)])"
  by pat_completeness auto
termination
  by (relation "measure (\<lambda>n. n)") auto

declare str_nat.simps [simp del]

definition str_int :: "int \<Rightarrow> string" where
  "str_int i = (if i < 0 then ''-'' @ str_nat (nat (- i)) else str_nat (nat i))"

fun join_str :: "string \<Rightarrow> string list \<Rightarrow> string" where
  "join_str sep [] = []"
| "join_str sep [x] = x"
| "join_str sep (x # y # ys) = x @ sep @ join_str sep (y # ys)"

definition repr_str_list :: "string list \<Rightarrow> string" where
  "repr_str_list xs = ''['' @ join_str '', '' (map (\<lambda>s. [CHR 0x27] @ s @ [CHR 0x27]) xs) @ '']''"

subsection \<open>Configuration and security (lines 49-55)\<close>

record DevUser =
  id_user :: int
  username :: string

definition DevUser_default :: DevUser where
  "DevUser_default = \<lparr>id_user = 1, username = ''dev''\<rparr>"

definition current_active_user :: "string \<Rightarrow> DevUser" where
  "current_active_user token = DevUser_default"

subsection \<open>Pydantic models and the table (lines 71-86, 112-128)\<close>

record ManualEntry =
  business_id :: string
  business_type :: string
  date :: string
  source_category :: string
  activity :: string
  amount :: real
  unit :: string
  emission_factor :: real
  scope :: string

text \<open>A row of the table \<^verbatim>\<open>emissions\<close>: the nine entry columns and the two derived ones.\<close>

record emission = ManualEntry +
  emissions_kgCO2e :: real
  user_id :: string

text \<open>
  The declared type of a column, which gives its affinity: \<^verbatim>\<open>TEXT\<close> in the schema of
  lines 71-86; \<^verbatim>\<open>INTEGER\<close>, \<^verbatim>\<open>REAL\<close> or \<^verbatim>\<open>TEXT\<close> in a table written by pandas.
\<close>

datatype affinity = TEXT | INTEGER | REAL

record database =
  emissions :: "emission list"
  business_id_affinity :: affinity
  business_type_affinity :: affinity

text \<open>Lines 63-106: the table \<^verbatim>\<open>emissions\<close> is dropped and created empty at start-up.\<close>

definition init_db :: database where
  "init_db = \<lparr>emissions = [], business_id_affinity = TEXT, business_type_affinity = TEXT\<rparr>"

subsection \<open>SQLite: numeric text, stored values, comparison with a bound parameter\<close>

text \<open>
  When SQLite applies a numeric affinity to a text it converts the text if the whole of it
  is a number: optional white space, an optional sign, digits with an optional decimal point
  (at least one digit in all), an optional exponent \<^verbatim>\<open>e\<close> or \<^verbatim>\<open>E\<close> with an optional sign and
  at least one digit, optional white space. \<open>sqlite_numeric\<close> gives the number, or \<open>None\<close>
  where the text stays a text.
\<close>

definition is_space :: "char \<Rightarrow> bool" where
  "is_space c \<longleftrightarrow> c \<in> set [CHR 0x20, CHR 0x09, CHR 0x0A, CHR 0x0B, CHR 0x0C, CHR 0x0D]"

definition is_digit :: "char \<Rightarrow> bool" where
  "is_digit c \<longleftrightarrow> c \<in> set ''0123456789''"

definition digits_value :: "string \<Rightarrow> nat" where
  "digits_value ds = foldl (\<lambda>a c. 10 * a + (of_char c - 48)) 0 ds"

definition take_sign :: "string \<Rightarrow> bool \<times> string" where
  "take_sign s =
     (case s of
        [] \<Rightarrow> (False, [])
      | c # r \<Rightarrow>
          if c = CHR ''-'' then (True, r) else if c = CHR ''+'' then (False, r) else (False, s))"

definition take_exponent :: "string \<Rightarrow> (int \<times> string) option" where
  "take_exponent s =
     (case s of
        [] \<Rightarrow> Some (0, [])
      | c # r \<Rightarrow>
         if c = CHR ''e'' \<or> c = CHR ''E''
         then (let (neg, r') = take_sign r; ds = takeWhile is_digit r'
               in if ds = [] then None
                  else Some ((if neg then - int (digits_value ds) else int (digits_value ds)),
                             dropWhile is_digit r'))
         else Some (0, s))"

definition sqlite_numeric :: "string \<Rightarrow> real option" where
  "sqlite_numeric s =
     (let (neg, s1) = take_sign (dropWhile is_space s);
          ip = takeWhile is_digit s1;
          s2 = dropWhile is_digit s1;
          fp = (case s2 of c # r \<Rightarrow> if c = CHR ''.'' then takeWhile is_digit r else []
                | [] \<Rightarrow> []);
          s3 = (case s2 of c # r \<Rightarrow> if c = CHR ''.'' then dropWhile is_digit r else s2
                | [] \<Rightarrow> [])
      in if ip @ fp = [] then None
         else (case take_exponent s3 of
                 None \<Rightarrow> None
               | Some (ex, s4) \<Rightarrow>
                  if dropWhile is_space s4 \<noteq> [] then None
                  else Some ((if neg then - 1 else 1) * real (digits_value (ip @ fp))
                             / 10 ^ length fp * 10 powi ex)))"

text \<open>The storage classes that a text or a number given to a column can end in.\<close>

datatype storage = SqlInteger int | SqlReal real | SqlText string

text \<open>
  The value kept for a text given to a column. A \<^verbatim>\<open>TEXT\<close> column keeps it. An \<^verbatim>\<open>INTEGER\<close>
  column turns numeric text into a number, an integer when the number is one within 64 bits;
  a \<^verbatim>\<open>REAL\<close> column turns it into a floating-point number. A row that pandas wrote from an
  \<^verbatim>\<open>int64\<close> or \<^verbatim>\<open>float64\<close> column carries the decimal text of its number, so the same rule
  gives the number that pandas stored.
\<close>

definition stored :: "affinity \<Rightarrow> string \<Rightarrow> storage" where
  "stored a s =
     (case a of
        TEXT \<Rightarrow> SqlText s
      | INTEGER \<Rightarrow>
          (case sqlite_numeric s of
             None \<Rightarrow> SqlText s
           | Some q \<Rightarrow>
               if q = of_int \<lfloor>q\<rfloor> \<and> - (2 ^ 63) \<le> q \<and> q < 2 ^ 63 then SqlInteger \<lfloor>q\<rfloor>
               else SqlReal q)
      | REAL \<Rightarrow>
          (case sqlite_numeric s of None \<Rightarrow> SqlText s | Some q \<Rightarrow> SqlReal q))"

text \<open>A stored value against a number: numbers compare by value, a text equals no number.\<close>

fun numeric_equal :: "storage \<Rightarrow> real \<Rightarrow> bool" where
  "numeric_equal (SqlInteger n) x \<longleftrightarrow> of_int n = x"
| "numeric_equal (SqlReal y) x \<longleftrightarrow> y = x"
| "numeric_equal (SqlText t) x \<longleftrightarrow> False"

text \<open>
  \<^verbatim>\<open>column = ?\<close> with a Python \<^verbatim>\<open>str\<close> bound to the parameter. Against a \<^verbatim>\<open>TEXT\<close> column
  the texts are compared. Against an \<^verbatim>\<open>INTEGER\<close> or \<^verbatim>\<open>REAL\<close> column the parameter gets
  numeric affinity first: numeric text is compared as a number, other text as text.
\<close>

definition text_param_equals :: "affinity \<Rightarrow> string \<Rightarrow> string \<Rightarrow> bool" where
  "text_param_equals a s t =
     (case a of
        TEXT \<Rightarrow> s = t
      | _ \<Rightarrow> (case sqlite_numeric t of
               None \<Rightarrow> stored a s = SqlText t
             | Some q \<Rightarrow> numeric_equal (stored a s) q))"

text \<open>
  The key under which pandas groups the values read back from a column: equal numbers are one
  key whether integer or floating point, and numbers sort before texts.
\<close>

fun value_key :: "storage \<Rightarrow> bool \<times> real \<times> string" where
  "value_key (SqlInteger n) = (False, of_int n, [])"
| "value_key (SqlReal x) = (False, x, [])"
| "value_key (SqlText t) = (True, 0, t)"

fun is_integer_value :: "storage \<Rightarrow> bool" where
  "is_integer_value (SqlInteger n) = True"
| "is_integer_value (SqlReal x) = False"
| "is_integer_value (SqlText t) = False"

record ScenarioRequest =
  waste_reduction :: real
  solar_percentage :: real
  transport_reduction :: real
  commute_reduction :: real
  source_category_filter :: string

text \<open>The \<^verbatim>\<open>Field(0, ge=0, le=100)\<close> constraints, checked by pydantic before the handler runs.\<close>

definition ScenarioRequest_valid :: "ScenarioRequest \<Rightarrow> bool" where
  "ScenarioRequest_valid sc \<longleftrightarrow>
     0 \<le> waste_reduction sc \<and> waste_reduction sc \<le> 100 \<and>
     0 \<le> solar_percentage sc \<and> solar_percentage sc \<le> 100 \<and>
     0 \<le> transport_reduction sc \<and> transport_reduction sc \<le> 100 \<and>
     0 \<le> commute_reduction sc \<and> commute_reduction sc \<le> 100"

subsection \<open>Helper functions (lines 134-141)\<close>

definition default_recommendation :: string where
  "default_recommendation = ''Review your energy consumption and identify areas for reduction.''"

definition recommendations :: "(string \<times> string) list" where
  "recommendations =
    [(''electricity'', ''Consider installing solar panels to reduce reliance on the grid.''),
     (''transport'', ''Optimize delivery routes and consider using more fuel-efficient vehicles.''),
     (''waste'', ''Implement a recycling program and compost organic waste.''),
     (''default'', default_recommendation)]"

text \<open>
  \<^verbatim>\<open>recommendations.get(source_category, recommendations["default"])\<close>: the default is
  looked up first (a missing key would raise \<^verbatim>\<open>KeyError\<close>), then the category.
\<close>

definition get_ai_recommendation :: "string \<Rightarrow> string \<Rightarrow> error + string" where
  "get_ai_recommendation activity_arg category =
     (case map_of recommendations ''default'' of
        None \<Rightarrow> Inl (KeyError ''default'')
      | Some d \<Rightarrow>
          Inr (case map_of recommendations category of Some r \<Rightarrow> r | None \<Rightarrow> d))"

subsection \<open>Data frame operations\<close>

text \<open>
  \<^verbatim>\<open>SELECT * FROM emissions WHERE business_id = ? AND user_id = ?\<close> with the parameters
  \<^verbatim>\<open>(business_id, str(user.id))\<close>.
\<close>

definition select_business :: "string \<Rightarrow> DevUser \<Rightarrow> database \<Rightarrow> emission list" where
  "select_business b user db =
     filter (\<lambda>r. text_param_equals (business_id_affinity db) (business_id r) b \<and>
                 user_id r = str_int (id_user user))
            (emissions db)"

text \<open>
  Lines 224 and 227: \<^verbatim>\<open>business_type = df_business['business_type'].iloc[0]\<close>, then
  \<^verbatim>\<open>SELECT * FROM emissions WHERE business_type = ?\<close> with that object bound. \<open>first\<close> and
  \<open>rest\<close> are the rows of \<^verbatim>\<open>df_business\<close>. What is bound depends on the dtype that pandas
  gives the column read back:
  \<^item> every value an integer: dtype \<^verbatim>\<open>int64\<close>, the element is a \<^verbatim>\<open>numpy.int64\<close>, which
    \<^verbatim>\<open>sqlite3\<close> binds through the buffer protocol as a BLOB; a BLOB equals no stored number and
    no stored text, so no row is selected;
  \<^item> otherwise the element is a Python \<^verbatim>\<open>int\<close> or a \<^verbatim>\<open>float\<close> (\<^verbatim>\<open>numpy.float64\<close> is one),
    bound as a number, or a \<^verbatim>\<open>str\<close>, bound as a text.
  A number is read back only from a column of numeric affinity, where it equals no text.
\<close>

definition select_sector :: "emission \<Rightarrow> emission list \<Rightarrow> database \<Rightarrow> emission list" where
  "select_sector first rest db =
     (let a = business_type_affinity db;
          read_back = map (\<lambda>r. stored a (business_type r)) (first # rest)
      in if list_all is_integer_value read_back then []
         else (case stored a (business_type first) of
                 SqlText t \<Rightarrow>
                   filter (\<lambda>r. text_param_equals a (business_type r) t) (emissions db)
               | SqlInteger n \<Rightarrow>
                   filter (\<lambda>r. numeric_equal (stored a (business_type r)) (of_int n)) (emissions db)
               | SqlReal x \<Rightarrow>
                   filter (\<lambda>r. numeric_equal (stored a (business_type r)) x) (emissions db)))"

text \<open>\<^verbatim>\<open>df.groupby(key)[col].sum()\<close>: one entry per distinct key, keys ascending.\<close>

definition groupby_sum :: "('r \<Rightarrow> 'k::linorder) \<Rightarrow> ('r \<Rightarrow> real) \<Rightarrow> 'r list \<Rightarrow> ('k \<times> real) list" where
  "groupby_sum key col df =
     map (\<lambda>k. (k, sum_list (map col (filter (\<lambda>r. key r = k) df))))
         (sort (remdups (map key df)))"

text \<open>\<^verbatim>\<open>Series.mean()\<close>: NaN (here \<open>None\<close>) on an empty series.\<close>

definition mean :: "real list \<Rightarrow> real option" where
  "mean xs = (if xs = [] then None else Some (sum_list xs / real (length xs)))"

text \<open>
  \<^verbatim>\<open>Series.idxmax()\<close>: the label of the first occurrence of the maximum; \<^verbatim>\<open>ValueError\<close>
  on an empty series.
\<close>

fun idxmax_from :: "'k \<Rightarrow> real \<Rightarrow> ('k \<times> real) list \<Rightarrow> 'k" where
  "idxmax_from k v [] = k"
| "idxmax_from k v ((k', v') # xs) =
     (if v' > v then idxmax_from k' v' xs else idxmax_from k v xs)"

fun idxmax :: "('k \<times> real) list \<Rightarrow> error + 'k" where
  "idxmax [] = Inl ValueError"
| "idxmax ((k, v) # xs) = Inr (idxmax_from k v xs)"

text \<open>\<^verbatim>\<open>series.iloc[0]\<close>.\<close>

fun iloc0 :: "'a list \<Rightarrow> error + 'a" where
  "iloc0 [] = Inl IndexError"
| "iloc0 (x # xs) = Inr x"

text \<open>Python's two-argument \<^verbatim>\<open>min\<close> and \<^verbatim>\<open>max\<close>: the first argument wins a tie.\<close>

definition py_min :: "real \<Rightarrow> real \<Rightarrow> real" where
  "py_min a b = (if b < a then b else a)"

definition py_max :: "real \<Rightarrow> real \<Rightarrow> real" where
  "py_max a b = (if b > a then b else a)"

subsection \<open>Ingestion (lines 148-191)\<close>

record response_message =
  message :: string

record manual_entry_response = response_message +
  response_emissions_kgCO2e :: real

text \<open>The row written by the \<^verbatim>\<open>INSERT\<close> of \<^verbatim>\<open>manual_entry\<close> and, per row, by \<^verbatim>\<open>upload_csv\<close>.\<close>

definition stored_row :: "ManualEntry \<Rightarrow> real \<Rightarrow> string \<Rightarrow> emission" where
  "stored_row entry e uid =
     \<lparr>business_id = business_id entry, business_type = business_type entry,
      date = date entry, source_category = source_category entry,
      activity = activity entry, amount = amount entry, unit = unit entry,
      emission_factor = emission_factor entry, scope = scope entry,
      emissions_kgCO2e = e, user_id = uid\<rparr>"

definition manual_entry ::
  "ManualEntry \<Rightarrow> DevUser \<Rightarrow> database \<Rightarrow> (error + manual_entry_response) \<times> database" where
  "manual_entry entry user db =
     (let e = amount entry * emission_factor entry
      in (Inr \<lparr>message = ''Manual entry added successfully'', response_emissions_kgCO2e = e\<rparr>,
          db\<lparr>emissions := emissions db @ [stored_row entry e (str_int (id_user user))]\<rparr>))"

text \<open>
  The result of \<^verbatim>\<open>pd.read_csv\<close>: the column names of the header, the parsed rows, and the
  dtype that pandas inferred for the columns \<^verbatim>\<open>business_id\<close> and \<^verbatim>\<open>business_type\<close>. A row
  carries the values of the nine required columns (for a column parsed as a number, the
  decimal text of the number); where a required column is absent the handler fails before it
  reads any row.
\<close>

datatype dtype = dtype_int64 | dtype_float64 | dtype_bool | dtype_object

record dataframe =
  columns :: "string list"
  rows :: "ManualEntry list"
  business_id_dtype :: dtype
  business_type_dtype :: dtype

text \<open>
  The column type that \<^verbatim>\<open>to_sql\<close> declares for a dtype when it creates the table on a
  \<^verbatim>\<open>sqlite3\<close> connection.
\<close>

fun sql_type :: "dtype \<Rightarrow> affinity" where
  "sql_type dtype_int64 = INTEGER"
| "sql_type dtype_float64 = REAL"
| "sql_type dtype_bool = INTEGER"
| "sql_type dtype_object = TEXT"

definition required_columns :: "string list" where
  "required_columns =
     [''business_id'', ''business_type'', ''date'', ''source_category'', ''activity'',
      ''amount'', ''unit'', ''emission_factor'', ''scope'']"

record upload_response = response_message +
  response_rows :: nat

definition upload_csv ::
  "dataframe \<Rightarrow> DevUser \<Rightarrow> database \<Rightarrow> (error + upload_response) \<times> database" where
  "upload_csv df user db =
     (if \<not> list_all (\<lambda>col. col \<in> set (columns df)) required_columns
      then (Inl (HTTPException 400
                  (''Missing required columns. Required: '' @ repr_str_list required_columns)),
            db)
      else
        (let df' = map (\<lambda>r. stored_row r (amount r * emission_factor r) (str_int (id_user user)))
                       (rows df)
         in (Inr \<lparr>message = ''Data uploaded and replaced successfully'',
                  response_rows = length df'\<rparr>,
             db\<lparr>emissions := df',
                business_id_affinity := sql_type (business_id_dtype df),
                business_type_affinity := sql_type (business_type_dtype df)\<rparr>)))"

subsection \<open>Aggregator: dashboard (lines 193-214)\<close>

record dashboard_response =
  total_emissions :: real
  avg_monthly_emissions :: real
  contributors :: "(string \<times> real) list"
  by_scope :: "(string \<times> real) list"

text \<open>
  The lists \<^verbatim>\<open>contributors\<close> and \<^verbatim>\<open>by_scope\<close> are lists of two-key dictionaries in the
  source (\<^verbatim>\<open>to_dict(orient='records')\<close>); here each dictionary is the pair of its values.
\<close>

definition get_dashboard :: "string \<Rightarrow> DevUser \<Rightarrow> database \<Rightarrow> error + dashboard_response" where
  "get_dashboard b user db =
     (let df = select_business b user db
      in if df = [] then Inl (HTTPException 404 ''No data found for this business'')
         else
           (let total = sum_list (map emissions_kgCO2e df);
                avg_monthly = total / 12;
                contribs = groupby_sum source_category emissions_kgCO2e df;
                scopes = groupby_sum scope emissions_kgCO2e df
            in Inr \<lparr>total_emissions = total, avg_monthly_emissions = avg_monthly,
                     contributors = contribs, by_scope = scopes\<rparr>))"

subsection \<open>Aggregator: insights (lines 216-244)\<close>

record insights_response =
  green_score :: real
  recommendation :: string
  explanation :: string

text \<open>The fixed sentence of line 241, byte for byte as the source file has it.\<close>

definition explanation_text :: string where
  "explanation_text =
     ''Based on Nigerian grid emission factors (0.359 kgCO''
     @ [CHR 0xC3, CHR 0xA2, CHR 0xE2, CHR 0x80, CHR 0x9A, CHR 0xE2, CHR 0x80, CHR 0x9A]
     @ ''/kWh) and fuel standards, your business emissions are interpreted according to local energy and waste conditions.''"

text \<open>
  Line 228: \<^verbatim>\<open>df_sector.groupby('business_id')['emissions_kgCO2e'].sum().mean()\<close>. The
  groups are those of the values read back from the column \<^verbatim>\<open>business_id\<close>, of affinity \<open>a\<close>.
\<close>

definition avg_sector_emissions :: "affinity \<Rightarrow> emission list \<Rightarrow> real option" where
  "avg_sector_emissions a df_sector =
     mean (map snd (groupby_sum (\<lambda>r. value_key (stored a (business_id r))) emissions_kgCO2e
                      df_sector))"

text \<open>
  Lines 230-231. A NaN average (\<open>None\<close>) fails the test \<^verbatim>\<open>avg_sector_emissions > 0\<close>, as
  every comparison with NaN does.
\<close>

definition compute_green_score :: "real \<Rightarrow> real option \<Rightarrow> real" where
  "compute_green_score total_emissions_arg avg =
     (let g = (case avg of
                 Some a \<Rightarrow> if a > 0 then (1 - total_emissions_arg / a) * 100 else 100
               | None \<Rightarrow> 100)
      in py_max 0 (py_min 100 g))"

text \<open>Line 233.\<close>

definition top_activity :: "emission list \<Rightarrow> error + string" where
  "top_activity df_business = idxmax (groupby_sum activity emissions_kgCO2e df_business)"

text \<open>Line 234.\<close>

definition top_source_category :: "emission list \<Rightarrow> string \<Rightarrow> error + string" where
  "top_source_category df_business act =
     iloc0 (map source_category (filter (\<lambda>r. activity r = act) df_business))"

definition get_insights :: "string \<Rightarrow> DevUser \<Rightarrow> database \<Rightarrow> error + insights_response" where
  "get_insights b user db =
     (let df_business = select_business b user db
      in case df_business of
           [] \<Rightarrow> Inl (HTTPException 404 ''No data found for this business'')
         | first # rest \<Rightarrow>
            (let total = sum_list (map emissions_kgCO2e df_business);
                 df_sector = select_sector first rest db;
                 score = compute_green_score total
                           (avg_sector_emissions (business_id_affinity db) df_sector)
             in case top_activity df_business of
                  Inl e \<Rightarrow> Inl e
                | Inr act \<Rightarrow>
                   (case top_source_category df_business act of
                      Inl e \<Rightarrow> Inl e
                    | Inr cat \<Rightarrow>
                       (case get_ai_recommendation act cat of
                          Inl e \<Rightarrow> Inl e
                        | Inr r \<Rightarrow>
                            Inr \<lparr>green_score = score, recommendation = r,
                                 explanation = explanation_text\<rparr>))))"

subsection \<open>Scenario simulation and forecast (lines 246-275)\<close>

text \<open>
  \<^verbatim>\<open>sim_data.loc[sim_data['source_category'] == cat, 'emissions_kgCO2e'] *= f\<close>
\<close>

definition loc_mul :: "string \<Rightarrow> real \<Rightarrow> emission list \<Rightarrow> emission list" where
  "loc_mul cat f df =
     map (\<lambda>r. if source_category r = cat
               then r\<lparr>emissions_kgCO2e := emissions_kgCO2e r * f\<rparr> else r) df"

text \<open>Lines 254-258: the four updates, in the order of the source.\<close>

definition sim_data :: "ScenarioRequest \<Rightarrow> emission list \<Rightarrow> emission list" where
  "sim_data sc df =
     loc_mul ''commute'' (1 - commute_reduction sc / 100)
       (loc_mul ''transport'' (1 - transport_reduction sc / 100)
         (loc_mul ''electricity'' (1 - solar_percentage sc / 100)
           (loc_mul ''waste'' (1 - waste_reduction sc / 100) df)))"

text \<open>Line 260.\<close>

definition df_filtered :: "ScenarioRequest \<Rightarrow> emission list \<Rightarrow> emission list" where
  "df_filtered sc sim =
     (if source_category_filter sc = ''all'' then sim
      else filter (\<lambda>r. source_category r = source_category_filter sc) sim)"

text \<open>Line 261: the series \<^verbatim>\<open>(ds, y)\<close> handed to the model.\<close>

definition df_prophet :: "emission list \<Rightarrow> (string \<times> real) list" where
  "df_prophet df = groupby_sum date emissions_kgCO2e df"

record 'f forecast_response =
  forecast :: 'f

text \<open>
  \<open>prophet\<close> stands for lines 266-269 (fit, future frame, predict) and the projection of
  line 272; it may raise.
\<close>

definition get_forecast ::
  "((string \<times> real) list \<Rightarrow> error + 'f) \<Rightarrow> string \<Rightarrow> ScenarioRequest \<Rightarrow> DevUser \<Rightarrow> database
     \<Rightarrow> error + 'f forecast_response" where
  "get_forecast prophet b sc user db =
     (let df = select_business b user db
      in if df = [] then Inl (HTTPException 400 ''Not enough data for forecast'')
         else
           (let series = df_prophet (df_filtered sc (sim_data sc df))
            in if length series < 2
               then Inl (HTTPException 400 ''Not enough data for forecast'')
               else (case prophet series of
                       Inl e \<Rightarrow> Inl e
                     | Inr f \<Rightarrow> Inr \<lparr>forecast = f\<rparr>)))"

subsection \<open>Report (lines 277-323)\<close>

text \<open>Line 290: \<^verbatim>\<open>contributors.loc[contributors['emissions_kgCO2e'].idxmax(), 'source_category']\<close>,
  on the frame re-indexed \<open>0, 1, \<dots>\<close> by \<^verbatim>\<open>reset_index\<close>.\<close>

definition top_category :: "(string \<times> real) list \<Rightarrow> error + string" where
  "top_category contribs =
     (case idxmax (zip [0..<length contribs] (map snd contribs)) of
        Inl e \<Rightarrow> Inl e
      | Inr i \<Rightarrow> if i < length contribs then Inr (fst (contribs ! i)) else Inl (KeyError (str_nat i)))"

text \<open>Lines 289-291: the recommendation that the report draws.\<close>

definition report_recommendation :: "emission list \<Rightarrow> error + string" where
  "report_recommendation df =
     (case top_category (groupby_sum source_category emissions_kgCO2e df) of
        Inl e \<Rightarrow> Inl e
      | Inr cat \<Rightarrow> get_ai_recommendation [] cat)"

text \<open>
  The drawing calls of lines 293-320 are reportlab's and are taken not to raise. Line 321
  builds the reply with \<^verbatim>\<open>Response\<close>, a name that the module neither imports nor defines
  (line 7 imports \<^verbatim>\<open>FastAPI, Depends, HTTPException, UploadFile, File, Form, Request\<close>), so
  evaluating it raises \<^verbatim>\<open>NameError\<close>. The type of the document is left open.
\<close>

definition generate_pdf_report :: "string \<Rightarrow> DevUser \<Rightarrow> database \<Rightarrow> error + 'doc" where
  "generate_pdf_report b user db =
     (let df = select_business b user db
      in if df = [] then Inl (HTTPException 404 ''No data found for report'')
         else
           (case report_recommendation df of
              Inl e \<Rightarrow> Inl e
            | Inr r \<Rightarrow> Inl (NameError ''name 'Response' is not defined'')))"

section \<open>The scenario adjustment in the words of the specification\<close>

text \<open>
  What the specification says the simulator does to one row: a row of category \<open>waste\<close>,
  \<open>electricity\<close>, \<open>transport\<close> or \<open>commute\<close> has its \<open>emissions_kgCO2e\<close> multiplied by
  \<open>1 - pct / 100\<close> for the matching knob (\<open>solar_percentage\<close> for electricity); any other row
  is left as it is. It is compared with \<open>sim_data\<close>, the translation of the source.
\<close>

definition spec_adjusted_row :: "ScenarioRequest \<Rightarrow> emission \<Rightarrow> emission" where
  "spec_adjusted_row sc r =
     (if source_category r = ''waste''
      then r\<lparr>emissions_kgCO2e := emissions_kgCO2e r * (1 - waste_reduction sc / 100)\<rparr>
      else if source_category r = ''electricity''
      then r\<lparr>emissions_kgCO2e := emissions_kgCO2e r * (1 - solar_percentage sc / 100)\<rparr>
      else if source_category r = ''transport''
      then r\<lparr>emissions_kgCO2e := emissions_kgCO2e r * (1 - transport_reduction sc / 100)\<rparr>
      else if source_category r = ''commute''
      then r\<lparr>emissions_kgCO2e := emissions_kgCO2e r * (1 - commute_reduction sc / 100)\<rparr>
      else r)"

section \<open>The green score in the words of the specification\<close>

text \<open>
  The sector of the specification: all stored records, of any tenant, whose \<open>business_type\<close>
  is that of \<open>first\<close>, the first record of the caller's selection.
\<close>

definition spec_sector :: "emission \<Rightarrow> database \<Rightarrow> emission list" where
  "spec_sector first db =
     filter (\<lambda>r. value_key (stored (business_type_affinity db) (business_type r)) =
                 value_key (stored (business_type_affinity db) (business_type first)))
            (emissions db)"

text \<open>
  The score of the specification for the selection \<open>first # rest\<close>:
  \<open>clamp(0, 100, (1 - total / avg_sector) * 100)\<close>, and 100 when \<open>avg_sector \<le> 0\<close>, where
  \<open>avg_sector\<close> is the mean over the distinct \<open>business_id\<close>s of the sector of the sums of
  \<open>emissions_kgCO2e\<close> per \<open>business_id\<close>.
\<close>

definition spec_green_score :: "emission \<Rightarrow> emission list \<Rightarrow> database \<Rightarrow> real" where
  "spec_green_score first rest db =
     (let total = sum_list (map emissions_kgCO2e (first # rest));
          sector = spec_sector first db;
          key = (\<lambda>r. value_key (stored (business_id_affinity db) (business_id r)));
          ids = key ` set sector;
          avg_sector =
            (\<Sum>i\<in>ids. sum_list (map emissions_kgCO2e (filter (\<lambda>r. key r = i) sector)))
            / real (card ids)
      in if avg_sector \<le> 0 then 100
         else max 0 (min 100 ((1 - total / avg_sector) * 100)))"

section \<open>Example data\<close>

text \<open>Concrete inputs on which the theorems below are instantiated.\<close>

definition example_entry ::
  "string \<Rightarrow> string \<Rightarrow> string \<Rightarrow> string \<Rightarrow> string \<Rightarrow> real \<Rightarrow> real \<Rightarrow> string \<Rightarrow> ManualEntry" where
  "example_entry b bt d cat act a f s =
     \<lparr>business_id = b, business_type = bt, date = d, source_category = cat, activity = act,
      amount = a, unit = ''kWh'', emission_factor = f, scope = s\<rparr>"

definition example_db :: database where
  "example_db =
     \<lparr>emissions =
        [stored_row (example_entry ''biz1'' ''bakery'' ''2024-01'' ''electricity'' ''grid'' 100 1 ''2'')
           100 ''1'',
         stored_row (example_entry ''biz1'' ''bakery'' ''2024-01'' ''waste'' ''landfill'' 25 2 ''3'')
           50 ''1'',
         stored_row (example_entry ''biz2'' ''bakery'' ''2024-02'' ''commute'' ''bus'' 300 1 ''3'')
           300 ''2''],
      business_id_affinity = TEXT, business_type_affinity = TEXT\<rparr>"

definition example_dataframe :: dataframe where
  "example_dataframe =
     \<lparr>columns = ''note'' # required_columns,
      rows = [example_entry ''biz3'' ''farm'' ''2024-03'' ''transport'' ''truck'' 10 (- 2) ''1'',
              example_entry ''biz3'' ''farm'' ''2024-04'' ''waste'' ''compost'' 0 5 ''3''],
      business_id_dtype = dtype_object, business_type_dtype = dtype_object\<rparr>"

text \<open>
  A file whose columns \<^verbatim>\<open>business_id\<close> and \<^verbatim>\<open>business_type\<close> hold only integers, which
  pandas parses as \<^verbatim>\<open>int64\<close>, and the store after its upload on the empty table.
\<close>

definition example_numeric_dataframe :: dataframe where
  "example_numeric_dataframe =
     \<lparr>columns = required_columns,
      rows = [example_entry ''42'' ''7'' ''2024-01'' ''electricity'' ''grid'' 10 1 ''2''],
      business_id_dtype = dtype_int64, business_type_dtype = dtype_int64\<rparr>"

definition example_numeric_db :: database where
  "example_numeric_db = snd (upload_csv example_numeric_dataframe DevUser_default init_db)"

definition example_zero_scenario :: ScenarioRequest where
  "example_zero_scenario =
     \<lparr>waste_reduction = 0, solar_percentage = 0, transport_reduction = 0,
      commute_reduction = 0, source_category_filter = ''all''\<rparr>"

definition example_full_scenario :: ScenarioRequest where
  "example_full_scenario =
     \<lparr>waste_reduction = 100, solar_percentage = 100, transport_reduction = 100,
      commute_reduction = 100, source_category_filter = ''all''\<rparr>"

definition example_rows :: "emission list" where
  "example_rows =
     [stored_row (example_entry ''biz1'' ''bakery'' ''2024-01'' ''waste'' ''landfill'' 25 2 ''3'') 50 ''1'',
      stored_row (example_entry ''biz1'' ''bakery'' ''2024-01'' ''electricity'' ''grid'' 100 1 ''2'') 100 ''1'',
      stored_row (example_entry ''biz1'' ''bakery'' ''2024-02'' ''transport'' ''van'' 15 2 ''1'') 30 ''1'',
      stored_row (example_entry ''biz1'' ''bakery'' ''2024-02'' ''commute'' ''bus'' 20 1 ''3'') 20 ''1'',
      stored_row (example_entry ''biz1'' ''bakery'' ''2024-03'' ''heating'' ''gas'' 5 2 ''1'') 10 ''1'']"

definition example_scenario :: ScenarioRequest where
  "example_scenario =
     \<lparr>waste_reduction = 100, solar_percentage = 50, transport_reduction = 0,
      commute_reduction = 0, source_category_filter = ''all''\<rparr>"

definition example_electricity_scenario :: ScenarioRequest where
  "example_electricity_scenario =
     \<lparr>waste_reduction = 100, solar_percentage = 50, transport_reduction = 0,
      commute_reduction = 0, source_category_filter = ''electricity''\<rparr>"

definition example_commute_db :: database where
  "example_commute_db =
     snd (manual_entry
            (example_entry ''biz1'' ''bakery'' ''2024-01'' ''commute'' ''bus'' 300 1 ''3'')
            DevUser_default init_db)"

section \<open>Auxiliary facts\<close>

lemma str_int_1: "str_int 1 = ''1''"
  by (simp add: str_int_def str_nat.simps digit_char_def)

lemma length_groupby_sum: "length (groupby_sum key col df) = card (key ` set df)"
  by (simp add: groupby_sum_def length_remdups_card_conv)

lemma map_fst_groupby_sum: "map fst (groupby_sum key col df) = sort (remdups (map key df))"
  by (simp add: groupby_sum_def comp_def)


lemma sorted_groupby_sum: "sorted (map fst (groupby_sum key col df))"
  by (simp add: map_fst_groupby_sum)

lemma set_groupby_sum:
  "set (groupby_sum key col df) =
     (\<lambda>k. (k, sum_list (map col (filter (\<lambda>r. key r = k) df)))) ` key ` set df"
  by (simp add: groupby_sum_def)

lemma groupby_sum_Nil_iff: "groupby_sum key col df = [] \<longleftrightarrow> df = []"
  using length_groupby_sum [of key col df] by (cases df) auto

lemma idxmax_from_mem: "idxmax_from k v xs = k \<or> idxmax_from k v xs \<in> fst ` set xs"
proof (induction xs arbitrary: k v)
  case Nil
  show ?case by simp
next
  case (Cons x xs)
  obtain k' v' where x: "x = (k', v')" by (cases x)
  show ?case
  proof (cases "v' > v")
    case True
    with Cons.IH [of k' v'] x show ?thesis by auto
  next
    case False
    with Cons.IH [of k v] x show ?thesis by auto
  qed
qed

lemma idxmax_mem: "idxmax xs = Inr k \<Longrightarrow> k \<in> fst ` set xs"
  using idxmax_from_mem by (cases xs) fastforce+

lemma idxmax_Inr: "xs \<noteq> [] \<Longrightarrow> \<exists>k. idxmax xs = Inr k"
  by (cases xs) auto

lemma map_of_default: "map_of recommendations ''default'' = Some default_recommendation"
  by (simp add: recommendations_def)

lemma get_ai_recommendation_eq:
  "get_ai_recommendation a c =
     Inr (if c = ''electricity'' then ''Consider installing solar panels to reduce reliance on the grid.''
          else if c = ''transport'' then ''Optimize delivery routes and consider using more fuel-efficient vehicles.''
          else if c = ''waste'' then ''Implement a recycling program and compost organic waste.''
          else default_recommendation)"
  by (simp add: get_ai_recommendation_def recommendations_def)

lemma top_activity_Inr:
  assumes "df \<noteq> []"
  shows "\<exists>act. top_activity df = Inr act \<and> act \<in> activity ` set df"
proof -
  have "groupby_sum activity emissions_kgCO2e df \<noteq> []"
    using assms by (simp add: groupby_sum_Nil_iff)
  then obtain act where a: "idxmax (groupby_sum activity emissions_kgCO2e df) = Inr act"
    using idxmax_Inr by blast
  then have "act \<in> fst ` set (groupby_sum activity emissions_kgCO2e df)"
    by (rule idxmax_mem)
  then have "act \<in> activity ` set df"
    by (auto simp: set_groupby_sum)
  with a show ?thesis by (simp add: top_activity_def)
qed

lemma top_source_category_Inr:
  assumes "act \<in> activity ` set df"
  shows "\<exists>cat. top_source_category df act = Inr cat \<and> cat \<in> source_category ` set df"
proof -
  from assms have "filter (\<lambda>r. activity r = act) df \<noteq> []"
    by (auto simp: filter_empty_conv)
  then obtain r rs where f: "filter (\<lambda>r. activity r = act) df = r # rs"
    by (cases "filter (\<lambda>r. activity r = act) df") auto
  then have "r \<in> set df"
    by (metis filter_is_subset list.set_intros(1) subsetD)
  with f show ?thesis by (simp add: top_source_category_def)
qed

lemma repr_required:
  "repr_str_list required_columns = ''['business_id', 'business_type', 'date', 'source_category', 'activity', 'amount', 'unit', 'emission_factor', 'scope']''"
  by (simp add: repr_str_list_def required_columns_def)

lemma select_business_TEXT:
  "business_id_affinity db = TEXT \<Longrightarrow>
     select_business b user db =
       filter (\<lambda>r. business_id r = b \<and> user_id r = str_int (id_user user)) (emissions db)"
  by (simp add: select_business_def text_param_equals_def)

lemma select_business_subset: "set (select_business b user db) \<subseteq> set (emissions db)"
  by (auto simp: select_business_def)

lemma example_select_biz1:
  "select_business ''biz1'' DevUser_default example_db =
     [stored_row (example_entry ''biz1'' ''bakery'' ''2024-01'' ''electricity'' ''grid'' 100 1 ''2'')
        100 ''1'',
      stored_row (example_entry ''biz1'' ''bakery'' ''2024-01'' ''waste'' ''landfill'' 25 2 ''3'')
        50 ''1'']"
  by (simp add: select_business_def text_param_equals_def example_db_def stored_row_def
      example_entry_def DevUser_default_def str_int_1)

lemma example_select_biz2:
  "select_business ''biz2'' DevUser_default example_db = []"
  by (simp add: select_business_def text_param_equals_def example_db_def stored_row_def
      example_entry_def DevUser_default_def str_int_1)

lemma sum_list_groupby_sum:
  "sum_list (map snd (groupby_sum key col df)) =
     (\<Sum>k\<in>key ` set df. sum_list (map col (filter (\<lambda>r. key r = k) df)))"
proof -
  have "sum_list (map snd (groupby_sum key col df)) =
      sum_list (map (\<lambda>k. sum_list (map col (filter (\<lambda>r. key r = k) df)))
                    (sort (remdups (map key df))))"
    by (simp add: groupby_sum_def comp_def)
  also have "\<dots> = (\<Sum>k\<in>set (sort (remdups (map key df))).
                     sum_list (map col (filter (\<lambda>r. key r = k) df)))"
    by (rule sum_list_distinct_conv_sum_set) simp
  finally show ?thesis by simp
qed

lemma avg_sector_emissions_eq:
  assumes "df \<noteq> []"
  shows "avg_sector_emissions a df =
     Some ((\<Sum>k\<in>(\<lambda>r. value_key (stored a (business_id r))) ` set df.
              sum_list (map emissions_kgCO2e
                (filter (\<lambda>r. value_key (stored a (business_id r)) = k) df)))
           / real (card ((\<lambda>r. value_key (stored a (business_id r))) ` set df)))"
  using assms
  by (simp add: avg_sector_emissions_def mean_def groupby_sum_Nil_iff sum_list_groupby_sum
      length_groupby_sum)

lemma avg_sector_emissions_Nil: "avg_sector_emissions a [] = None"
  by (simp add: avg_sector_emissions_def mean_def groupby_sum_def)

lemma value_key_eq_iff:
  "value_key v = (True, 0, t) \<longleftrightarrow> v = SqlText t"
  "value_key v = (False, x, []) \<longleftrightarrow> numeric_equal v x"
  by (cases v; auto)+

lemma value_key_stored_eq:
  "value_key v = value_key (SqlText t) \<longleftrightarrow> v = SqlText t"
  "value_key v = value_key (SqlInteger n) \<longleftrightarrow> numeric_equal v (of_int n)"
  "value_key v = value_key (SqlReal x) \<longleftrightarrow> numeric_equal v x"
  by (cases v; auto)+

lemma stored_SqlText:
  assumes "stored a s = SqlText t"
  shows "t = s \<and> (a = TEXT \<or> sqlite_numeric s = None)"
  using assms by (cases a) (auto simp: stored_def split: option.splits if_splits)

lemma py_clamp: "py_max 0 (py_min 100 g) = max 0 (min 100 g)"
  by (simp add: py_max_def py_min_def max_def min_def)

lemma compute_green_score_range:
  "0 \<le> compute_green_score t avg \<and> compute_green_score t avg \<le> 100"
  by (simp add: compute_green_score_def py_clamp Let_def)

lemma compute_green_score_Some:
  "compute_green_score t (Some a) =
     (if a \<le> 0 then 100 else max 0 (min 100 ((1 - t / a) * 100)))"
  by (simp add: compute_green_score_def py_clamp Let_def)

lemma example_numeric_42: "sqlite_numeric ''42'' = Some 42"
  by (simp add: sqlite_numeric_def take_sign_def take_exponent_def is_space_def is_digit_def
      digits_value_def)

lemma example_numeric_042: "sqlite_numeric ''042'' = Some 42"
  by (simp add: sqlite_numeric_def take_sign_def take_exponent_def is_space_def is_digit_def
      digits_value_def)

lemma example_numeric_43: "sqlite_numeric ''43'' = Some 43"
  by (simp add: sqlite_numeric_def take_sign_def take_exponent_def is_space_def is_digit_def
      digits_value_def)

lemma example_numeric_7: "sqlite_numeric ''7'' = Some 7"
  by (simp add: sqlite_numeric_def take_sign_def take_exponent_def is_space_def is_digit_def
      digits_value_def)

lemma example_numeric_42_stored: "stored INTEGER ''42'' = SqlInteger 42"
  by (simp add: stored_def example_numeric_42)

lemma example_numeric_7_stored: "stored INTEGER ''7'' = SqlInteger 7"
  by (simp add: stored_def example_numeric_7)

lemma example_numeric_db_eq:
  "example_numeric_db =
     \<lparr>emissions =
        [stored_row (example_entry ''42'' ''7'' ''2024-01'' ''electricity'' ''grid'' 10 1 ''2'')
           10 ''1''],
      business_id_affinity = INTEGER, business_type_affinity = INTEGER\<rparr>"
  by (simp add: example_numeric_db_def example_numeric_dataframe_def upload_csv_def
      required_columns_def init_db_def Let_def example_entry_def DevUser_default_def str_int_1)

lemma get_insights_Inr:
  assumes "select_business b user db = first # rest"
  shows "\<exists>r act cat. get_insights b user db = Inr r \<and>
     top_activity (first # rest) = Inr act \<and>
     top_source_category (first # rest) act = Inr cat \<and>
     get_ai_recommendation act cat = Inr (recommendation r) \<and>
     explanation r = explanation_text \<and>
     green_score r =
       compute_green_score (sum_list (map emissions_kgCO2e (first # rest)))
         (avg_sector_emissions (business_id_affinity db) (select_sector first rest db))"
proof -
  obtain act where a: "top_activity (first # rest) = Inr act"
    and am: "act \<in> activity ` set (first # rest)"
    using top_activity_Inr [of "first # rest"] by auto
  obtain cat where c: "top_source_category (first # rest) act = Inr cat"
    using top_source_category_Inr [OF am] by auto
  obtain rec where r: "get_ai_recommendation act cat = Inr rec"
    by (simp add: get_ai_recommendation_eq)
  show ?thesis
    using assms a c r by (simp add: get_insights_def Let_def)
qed

lemma select_business_numeric_column:
  "select_business ''042'' DevUser_default example_numeric_db = emissions example_numeric_db \<and>
   select_business '' 42'' DevUser_default example_numeric_db = emissions example_numeric_db \<and>
   select_business ''42.0'' DevUser_default example_numeric_db = emissions example_numeric_db \<and>
   (\<exists>r. get_dashboard ''042'' DevUser_default example_numeric_db = Inr r \<and>
        total_emissions r = 10)"
proof -
  have n: "sqlite_numeric ''042'' = Some 42" "sqlite_numeric '' 42'' = Some 42"
    "sqlite_numeric ''42.0'' = Some 42"
    by (simp_all add: sqlite_numeric_def take_sign_def take_exponent_def is_space_def is_digit_def
      digits_value_def)
  have s: "select_business ''042'' DevUser_default example_numeric_db = emissions example_numeric_db"
    "select_business '' 42'' DevUser_default example_numeric_db = emissions example_numeric_db"
    "select_business ''42.0'' DevUser_default example_numeric_db = emissions example_numeric_db"
    by (simp_all add: example_numeric_db_eq select_business_def text_param_equals_def n
        example_numeric_42_stored stored_row_def example_entry_def DevUser_default_def str_int_1)
  have "\<exists>r. get_dashboard ''042'' DevUser_default example_numeric_db = Inr r \<and>
        total_emissions r = 10"
    unfolding get_dashboard_def Let_def s
    by (simp add: example_numeric_db_eq stored_row_def)
  with s show ?thesis by simp
qed

lemma select_sector_spec:
  assumes "\<not> list_all is_integer_value
              (map (\<lambda>r. stored (business_type_affinity db) (business_type r)) (first # rest))"
  shows "select_sector first rest db = spec_sector first db"
proof (cases "stored (business_type_affinity db) (business_type first)")
  case (SqlInteger n)
  with assms show ?thesis
    by (simp add: select_sector_def spec_sector_def Let_def value_key_eq_iff)
next
  case (SqlReal x)
  with assms show ?thesis
    by (simp add: select_sector_def spec_sector_def Let_def value_key_eq_iff)
next
  case (SqlText t)
  from stored_SqlText [OF SqlText]
  have t: "t = business_type first"
    and a: "business_type_affinity db = TEXT \<or> sqlite_numeric t = None"
    by simp_all
  have "text_param_equals (business_type_affinity db) s t \<longleftrightarrow>
        stored (business_type_affinity db) s = SqlText t" for s
    using a by (cases "business_type_affinity db") (auto simp: text_param_equals_def stored_def)
  with assms SqlText show ?thesis
    by (simp add: select_sector_def spec_sector_def Let_def value_key_eq_iff)
qed

lemma insights_green_score_range:
  assumes "select_business b user db = first # rest"
  shows "\<exists>r. get_insights b user db = Inr r \<and> 0 \<le> green_score r \<and> green_score r \<le> 100"
  using get_insights_Inr [OF assms] compute_green_score_range by metis

lemma insights_green_score_spec:
  assumes "select_business b user db = first # rest"
    and "\<not> list_all is_integer_value
              (map (\<lambda>r. stored (business_type_affinity db) (business_type r)) (first # rest))"
  shows "\<exists>r. get_insights b user db = Inr r \<and> green_score r = spec_green_score first rest db"
proof -
  have "first \<in> set (select_business b user db)"
    using assms(1) by simp
  then have "first \<in> set (emissions db)"
    using select_business_subset by blast
  then have ne: "spec_sector first db \<noteq> []"
    by (auto simp: spec_sector_def filter_empty_conv)
  obtain r where r: "get_insights b user db = Inr r"
    and g: "green_score r =
       compute_green_score (sum_list (map emissions_kgCO2e (first # rest)))
         (avg_sector_emissions (business_id_affinity db) (select_sector first rest db))"
    using get_insights_Inr [OF assms(1)] by blast
  have "green_score r = spec_green_score first rest db"
    unfolding g select_sector_spec [OF assms(2)] avg_sector_emissions_eq [OF ne]
      compute_green_score_Some
    by (simp add: spec_green_score_def Let_def)
  with r show ?thesis by blast
qed

lemma sim_data_eq: "sim_data sc df = map (spec_adjusted_row sc) df"
  by (simp add: sim_data_def loc_mul_def spec_adjusted_row_def)

lemma source_category_sim_data:
  "map source_category (sim_data sc df) = map source_category df"
  by (simp add: sim_data_eq spec_adjusted_row_def)

lemma example_sim_biz1:
  "df_filtered example_scenario
     (sim_data example_scenario (select_business ''biz1'' DevUser_default example_db)) =
     [stored_row (example_entry ''biz1'' ''bakery'' ''2024-01'' ''electricity'' ''grid'' 100 1 ''2'')
        50 ''1'',
      stored_row (example_entry ''biz1'' ''bakery'' ''2024-01'' ''waste'' ''landfill'' 25 2 ''3'')
        0 ''1'']"
  by (simp add: example_select_biz1 sim_data_def loc_mul_def df_filtered_def example_scenario_def
      stored_row_def example_entry_def)

lemma get_ai_recommendation_default:
  "c \<noteq> ''electricity'' \<Longrightarrow> c \<noteq> ''transport'' \<Longrightarrow> c \<noteq> ''waste''
     \<Longrightarrow> get_ai_recommendation a c = Inr default_recommendation"
  by (simp add: get_ai_recommendation_eq)

lemma get_ai_recommendation_activity_irrelevant:
  "get_ai_recommendation a c = get_ai_recommendation a' c"
  by (simp add: get_ai_recommendation_def)

lemma get_insights_default_recommendation:
  assumes "select_business b user db = first # rest"
    and "top_activity (first # rest) = Inr act"
    and "top_source_category (first # rest) act = Inr cat"
    and "cat \<noteq> ''electricity''" and "cat \<noteq> ''transport''" and "cat \<noteq> ''waste''"
  shows "\<exists>r. get_insights b user db = Inr r \<and> recommendation r = default_recommendation"
  using get_insights_Inr [OF assms(1)] assms(2-)
  by (auto simp: get_ai_recommendation_eq)

lemma generate_pdf_report_never_returns:
  "generate_pdf_report b user db \<noteq> Inr doc"
  by (simp add: generate_pdf_report_def Let_def split: sum.splits)

lemma example_commute_select:
  "select_business ''biz1'' DevUser_default example_commute_db =
     [stored_row (example_entry ''biz1'' ''bakery'' ''2024-01'' ''commute'' ''bus'' 300 1 ''3'')
        300 ''1'']"
  by (simp add: example_commute_db_def manual_entry_def select_business_def Let_def
      text_param_equals_def init_db_def stored_row_def example_entry_def DevUser_default_def
      str_int_1)

lemma example_commute_groupby:
  "groupby_sum source_category emissions_kgCO2e
     [stored_row (example_entry ''biz1'' ''bakery'' ''2024-01'' ''commute'' ''bus'' 300 1 ''3'')
        300 ''1''] = [(''commute'', 300)]"
  by (simp add: groupby_sum_def stored_row_def example_entry_def)

section \<open>Ingestion\<close>

text \<open>
  C8. \<^verbatim>\<open>manual_entry\<close> has no validation and no failure branch: for every entry, with
  any \<open>amount\<close> and \<open>emission_factor\<close> (zero and negative included), it returns the value
  \<open>amount * emission_factor\<close>, the table grows by exactly one row put at its end, the rows that
  were stored before are unchanged, the new row carries the nine fields of the entry, the computed
  value as \<open>emissions_kgCO2e\<close> and the caller's identity \<^verbatim>\<open>str(user.id)\<close> as \<open>user_id\<close>.
\<close>

theorem manual_entry_appends_one_row:
  "fst (manual_entry entry user db) =
     Inr \<lparr>message = ''Manual entry added successfully'',
          response_emissions_kgCO2e = amount entry * emission_factor entry\<rparr> \<and>
   length (emissions (snd (manual_entry entry user db))) = Suc (length (emissions db)) \<and>
   butlast (emissions (snd (manual_entry entry user db))) = emissions db \<and>
   ManualEntry.truncate (last (emissions (snd (manual_entry entry user db)))) = entry \<and>
   emissions_kgCO2e (last (emissions (snd (manual_entry entry user db)))) =
     amount entry * emission_factor entry \<and>
   user_id (last (emissions (snd (manual_entry entry user db)))) = str_int (id_user user)"
  by (simp add: manual_entry_def stored_row_def Let_def ManualEntry.truncate_def)

theorem manual_entry_appends_one_row_witness:
  "fst (manual_entry (example_entry ''biz1'' ''bakery'' ''2024-05'' ''other'' ''refund'' (- 4) 3 ''1'')
          DevUser_default example_db) =
     Inr \<lparr>message = ''Manual entry added successfully'', response_emissions_kgCO2e = - 12\<rparr> \<and>
   length (emissions (snd (manual_entry
      (example_entry ''biz1'' ''bakery'' ''2024-05'' ''other'' ''refund'' (- 4) 3 ''1'')
      DevUser_default example_db))) = 4 \<and>
   user_id (last (emissions (snd (manual_entry
      (example_entry ''biz1'' ''bakery'' ''2024-05'' ''other'' ''refund'' (- 4) 3 ''1'')
      DevUser_default example_db)))) = ''1''"
  using manual_entry_appends_one_row
    [of "example_entry ''biz1'' ''bakery'' ''2024-05'' ''other'' ''refund'' (- 4) 3 ''1''"
        DevUser_default example_db]
  by (simp add: example_entry_def example_db_def DevUser_default_def str_int_1)

text \<open>
  C1. When the parsed file has all nine required columns, \<^verbatim>\<open>upload_csv\<close> succeeds and
  returns the number of input rows; afterwards the table holds exactly one row per input row, in
  order, each with the nine fields of the input row, \<open>emissions_kgCO2e = amount * emission_factor\<close>
  and \<open>user_id\<close> the caller's identity; and the new table does not depend on what was stored
  before (\<open>db0\<close> is any other prior store), so every prior row of every tenant is gone.
\<close>

theorem upload_csv_replaces_store:
  assumes "''business_id'' \<in> set (columns df)" and "''business_type'' \<in> set (columns df)"
    and "''date'' \<in> set (columns df)" and "''source_category'' \<in> set (columns df)"
    and "''activity'' \<in> set (columns df)" and "''amount'' \<in> set (columns df)"
    and "''unit'' \<in> set (columns df)" and "''emission_factor'' \<in> set (columns df)"
    and "''scope'' \<in> set (columns df)"
  shows "fst (upload_csv df user db) =
           Inr \<lparr>message = ''Data uploaded and replaced successfully'',
                response_rows = length (rows df)\<rparr> \<and>
         map ManualEntry.truncate (emissions (snd (upload_csv df user db))) = rows df \<and>
         map emissions_kgCO2e (emissions (snd (upload_csv df user db))) =
           map (\<lambda>r. amount r * emission_factor r) (rows df) \<and>
         map user_id (emissions (snd (upload_csv df user db))) =
           replicate (length (rows df)) (str_int (id_user user)) \<and>
         snd (upload_csv df user db) = snd (upload_csv df user db0)"
proof -
  have ok: "list_all (\<lambda>col. col \<in> set (columns df)) required_columns"
    using assms by (simp add: required_columns_def)
  have t: "ManualEntry.truncate (stored_row r e u) = r" for r e u
    by (simp add: stored_row_def ManualEntry.truncate_def)
  have e: "emissions_kgCO2e (stored_row r e u) = e" for r e u
    by (simp add: stored_row_def)
  have u: "user_id (stored_row r e u) = u" for r e u
    by (simp add: stored_row_def)
  show ?thesis
    using ok
    by (simp add: upload_csv_def Let_def comp_def t e u map_replicate_const)
qed

theorem upload_csv_replaces_store_witness:
  "''business_id'' \<in> set (columns example_dataframe) \<and>
   ''business_type'' \<in> set (columns example_dataframe) \<and>
   ''date'' \<in> set (columns example_dataframe) \<and>
   ''source_category'' \<in> set (columns example_dataframe) \<and>
   ''activity'' \<in> set (columns example_dataframe) \<and>
   ''amount'' \<in> set (columns example_dataframe) \<and>
   ''unit'' \<in> set (columns example_dataframe) \<and>
   ''emission_factor'' \<in> set (columns example_dataframe) \<and>
   ''scope'' \<in> set (columns example_dataframe) \<and>
   fst (upload_csv example_dataframe DevUser_default example_db) =
     Inr \<lparr>message = ''Data uploaded and replaced successfully'', response_rows = 2\<rparr> \<and>
   map business_id (emissions (snd (upload_csv example_dataframe DevUser_default example_db))) =
     [''biz3'', ''biz3''] \<and>
   map emissions_kgCO2e (emissions (snd (upload_csv example_dataframe DevUser_default example_db))) =
     [- 20, 0] \<and>
   map user_id (emissions (snd (upload_csv example_dataframe DevUser_default example_db))) =
     [''1'', ''1'']"
proof -
  have c: "''business_id'' \<in> set (columns example_dataframe)"
    "''business_type'' \<in> set (columns example_dataframe)"
    "''date'' \<in> set (columns example_dataframe)"
    "''source_category'' \<in> set (columns example_dataframe)"
    "''activity'' \<in> set (columns example_dataframe)"
    "''amount'' \<in> set (columns example_dataframe)"
    "''unit'' \<in> set (columns example_dataframe)"
    "''emission_factor'' \<in> set (columns example_dataframe)"
    "''scope'' \<in> set (columns example_dataframe)"
    by (simp_all add: example_dataframe_def required_columns_def)
  have r: "rows example_dataframe =
      [example_entry ''biz3'' ''farm'' ''2024-03'' ''transport'' ''truck'' 10 (- 2) ''1'',
       example_entry ''biz3'' ''farm'' ''2024-04'' ''waste'' ''compost'' 0 5 ''3'']"
    by (simp add: example_dataframe_def)
  have "map business_id (emissions (snd (upload_csv example_dataframe DevUser_default example_db)))
      = map business_id (map ManualEntry.truncate
          (emissions (snd (upload_csv example_dataframe DevUser_default example_db))))"
    by (simp add: comp_def ManualEntry.truncate_def)
  with upload_csv_replaces_store [OF c, of DevUser_default example_db example_db] c
  show ?thesis
    by (simp add: r example_entry_def DevUser_default_def str_int_1)
qed

text \<open>
  C7. \<^verbatim>\<open>upload_csv\<close> raises the HTTP 400 "Missing required columns" exception (the
  spec's \<^verbatim>\<open>ValidationError\<close>) if and only if one of the nine required columns is absent from
  the parsed file; on a parsed frame it raises nothing else; and when it raises, the store is
  unchanged.
\<close>

theorem upload_csv_validation_error_iff:
  "(fst (upload_csv df user db) =
      Inl (HTTPException 400 ''Missing required columns. Required: ['business_id', 'business_type', 'date', 'source_category', 'activity', 'amount', 'unit', 'emission_factor', 'scope']'')
    \<longleftrightarrow> \<not> (''business_id'' \<in> set (columns df) \<and> ''business_type'' \<in> set (columns df) \<and>
           ''date'' \<in> set (columns df) \<and> ''source_category'' \<in> set (columns df) \<and>
           ''activity'' \<in> set (columns df) \<and> ''amount'' \<in> set (columns df) \<and>
           ''unit'' \<in> set (columns df) \<and> ''emission_factor'' \<in> set (columns df) \<and>
           ''scope'' \<in> set (columns df))) \<and>
   ((\<exists>e. fst (upload_csv df user db) = Inl e)
    \<longleftrightarrow> \<not> (''business_id'' \<in> set (columns df) \<and> ''business_type'' \<in> set (columns df) \<and>
           ''date'' \<in> set (columns df) \<and> ''source_category'' \<in> set (columns df) \<and>
           ''activity'' \<in> set (columns df) \<and> ''amount'' \<in> set (columns df) \<and>
           ''unit'' \<in> set (columns df) \<and> ''emission_factor'' \<in> set (columns df) \<and>
           ''scope'' \<in> set (columns df))) \<and>
   ((\<exists>e. fst (upload_csv df user db) = Inl e) \<longrightarrow> snd (upload_csv df user db) = db)"
proof -
  have ok: "list_all (\<lambda>col. col \<in> set (columns df)) required_columns \<longleftrightarrow>
    (''business_id'' \<in> set (columns df) \<and> ''business_type'' \<in> set (columns df) \<and>
           ''date'' \<in> set (columns df) \<and> ''source_category'' \<in> set (columns df) \<and>
           ''activity'' \<in> set (columns df) \<and> ''amount'' \<in> set (columns df) \<and>
           ''unit'' \<in> set (columns df) \<and> ''emission_factor'' \<in> set (columns df) \<and>
           ''scope'' \<in> set (columns df))"
    by (simp add: required_columns_def)
  show ?thesis
    unfolding ok [symmetric]
    by (simp add: upload_csv_def Let_def repr_required)
qed

theorem upload_csv_validation_error_iff_witness:
  "''scope'' \<notin> set (columns (example_dataframe\<lparr>columns := butlast required_columns, rows := []\<rparr>)) \<and>
   fst (upload_csv (example_dataframe\<lparr>columns := butlast required_columns, rows := []\<rparr>) DevUser_default example_db) =
     Inl (HTTPException 400 ''Missing required columns. Required: ['business_id', 'business_type', 'date', 'source_category', 'activity', 'amount', 'unit', 'emission_factor', 'scope']'') \<and>
   snd (upload_csv (example_dataframe\<lparr>columns := butlast required_columns, rows := []\<rparr>) DevUser_default example_db) =
     example_db"
proof -
  have n: "''scope'' \<notin> set (columns (example_dataframe\<lparr>columns := butlast required_columns, rows := []\<rparr>))"
    by (simp add: required_columns_def)
  with upload_csv_validation_error_iff
    [of "example_dataframe\<lparr>columns := butlast required_columns, rows := []\<rparr>" DevUser_default
      example_db]
  show ?thesis by blast
qed

section \<open>Aggregator\<close>



text \<open>
  C2. On a store whose \<open>business_type\<close> column holds only integers (the upload of a file
  whose \<open>business_type\<close> cells are all \<open>7\<close>), the value read back at line 224 is a
  \<^verbatim>\<open>numpy.int64\<close>, the query of line 227 selects no row, the mean of the empty series is
  NaN and \<^verbatim>\<open>get_insights\<close> returns the score 100. The specification's score for the same
  request is 0: the business is the only one of its sector, so its total equals the sector
  average. Where the value read back is not a \<^verbatim>\<open>numpy.int64\<close> the code computes the
  specification's score (\<open>insights_green_score_spec\<close>), and the score is always in [0, 100]
  (\<open>insights_green_score_range\<close>).
\<close>

theorem insights_numeric_business_type:
  "example_numeric_db =
     \<lparr>emissions =
        [stored_row (example_entry ''42'' ''7'' ''2024-01'' ''electricity'' ''grid'' 10 1 ''2'')
           10 ''1''],
      business_id_affinity = INTEGER, business_type_affinity = INTEGER\<rparr> \<and>
   select_business ''42'' DevUser_default example_numeric_db = emissions example_numeric_db \<and>
   select_sector (hd (emissions example_numeric_db)) [] example_numeric_db = [] \<and>
   (\<exists>r. get_insights ''42'' DevUser_default example_numeric_db = Inr r \<and> green_score r = 100) \<and>
   spec_green_score (hd (emissions example_numeric_db)) [] example_numeric_db = 0"
proof -
  have db: "example_numeric_db =
     \<lparr>emissions =
        [stored_row (example_entry ''42'' ''7'' ''2024-01'' ''electricity'' ''grid'' 10 1 ''2'')
           10 ''1''],
      business_id_affinity = INTEGER, business_type_affinity = INTEGER\<rparr>"
    by (simp add: example_numeric_db_def example_numeric_dataframe_def upload_csv_def
        required_columns_def init_db_def Let_def example_entry_def DevUser_default_def str_int_1)
  have sel: "select_business ''42'' DevUser_default example_numeric_db =
      emissions example_numeric_db"
    unfolding db
    by (simp add: select_business_def text_param_equals_def example_numeric_42
        example_numeric_42_stored stored_row_def example_entry_def DevUser_default_def str_int_1)
  have hd: "hd (emissions example_numeric_db) =
      stored_row (example_entry ''42'' ''7'' ''2024-01'' ''electricity'' ''grid'' 10 1 ''2'')
        10 ''1''"
    unfolding db by simp
  have sec: "select_sector (hd (emissions example_numeric_db)) [] example_numeric_db = []"
    unfolding hd unfolding db
    by (simp add: select_sector_def Let_def example_numeric_7_stored stored_row_def
        example_entry_def)
  have sel': "select_business ''42'' DevUser_default example_numeric_db =
      hd (emissions example_numeric_db) # []"
    unfolding sel unfolding db by simp
  obtain r where r: "get_insights ''42'' DevUser_default example_numeric_db = Inr r"
    and g: "green_score r =
       compute_green_score (sum_list (map emissions_kgCO2e [hd (emissions example_numeric_db)]))
         (avg_sector_emissions (business_id_affinity example_numeric_db)
            (select_sector (hd (emissions example_numeric_db)) [] example_numeric_db))"
    using get_insights_Inr [OF sel'] by blast
  have score: "green_score r = 100"
    unfolding g sec avg_sector_emissions_Nil
    by (simp add: compute_green_score_def py_max_def py_min_def)
  have spec: "spec_green_score (hd (emissions example_numeric_db)) [] example_numeric_db = 0"
    unfolding hd unfolding db
    by (simp add: spec_green_score_def spec_sector_def Let_def stored_row_def example_entry_def
        example_numeric_7_stored example_numeric_42_stored)
  from db sel sec r score spec show ?thesis by blast
qed

section \<open>Scenario simulation and forecast\<close>

text \<open>
  C3. The four updates of \<^verbatim>\<open>get_forecast\<close> (lines 254-258) do to every row what the
  specification says (\<open>spec_adjusted_row\<close>): rows of category waste, electricity, transport,
  commute are scaled by \<open>1 - pct / 100\<close> with their knob, other rows are unchanged; when
  \<open>scenario.source_category\<close> is not \<open>all\<close> the adjusted rows are then filtered to that category;
  and \<^verbatim>\<open>get_forecast\<close> builds its series from exactly these rows.
\<close>

theorem scenario_adjustment:
  "sim_data sc df = map (spec_adjusted_row sc) df \<and>
   df_filtered sc (sim_data sc df) =
     (if source_category_filter sc = ''all'' then map (spec_adjusted_row sc) df
      else filter (\<lambda>r. source_category r = source_category_filter sc)
             (map (spec_adjusted_row sc) df)) \<and>
   get_forecast prophet b sc user db =
     (if select_business b user db = []
      then Inl (HTTPException 400 ''Not enough data for forecast'')
      else
        (let adjusted = map (spec_adjusted_row sc) (select_business b user db);
             kept = (if source_category_filter sc = ''all'' then adjusted
                     else filter (\<lambda>r. source_category r = source_category_filter sc) adjusted);
             series = groupby_sum date emissions_kgCO2e kept
         in if length series < 2
            then Inl (HTTPException 400 ''Not enough data for forecast'')
            else (case prophet series of Inl e \<Rightarrow> Inl e | Inr f \<Rightarrow> Inr \<lparr>forecast = f\<rparr>)))"
  by (simp add: sim_data_eq df_filtered_def get_forecast_def df_prophet_def Let_def)

theorem scenario_adjustment_witness:
  "map emissions_kgCO2e (sim_data example_scenario example_rows) = [0, 50, 30, 20, 10] \<and>
   map emissions_kgCO2e
     (df_filtered example_electricity_scenario
        (sim_data example_electricity_scenario example_rows)) = [50]"
proof -
  have e1: "map emissions_kgCO2e (map (spec_adjusted_row example_scenario) example_rows) =
      [0, 50, 30, 20, 10]"
    by (simp add: spec_adjusted_row_def example_scenario_def example_rows_def stored_row_def
        example_entry_def)
  have f: "source_category_filter example_electricity_scenario = ''electricity''"
    by (simp add: example_electricity_scenario_def)
  have e2: "map emissions_kgCO2e
      (filter (\<lambda>r. source_category r = ''electricity'')
         (map (spec_adjusted_row example_electricity_scenario) example_rows)) = [50]"
    by (simp add: spec_adjusted_row_def example_electricity_scenario_def example_rows_def
        stored_row_def example_entry_def)
  have a: "map emissions_kgCO2e (sim_data example_scenario example_rows) = [0, 50, 30, 20, 10]"
    unfolding scenario_adjustment [of example_scenario example_rows, THEN conjunct1]
    by (rule e1)
  have b: "map emissions_kgCO2e
     (df_filtered example_electricity_scenario
        (sim_data example_electricity_scenario example_rows)) = [50]"
    unfolding scenario_adjustment
      [of example_electricity_scenario example_rows, THEN conjunct2, THEN conjunct1]
    by (simp add: f e2)
  from a b show ?thesis by simp
qed

text \<open>
  C9. For every list of records: with all four knobs 0 and the category filter \<open>all\<close>, the
  simulated rows are the records themselves, so every \<open>emissions_kgCO2e\<close> is unchanged; with a
  knob at 100, every simulated row of the corresponding category has \<open>emissions_kgCO2e = 0\<close>.
\<close>

theorem scenario_knobs_zero_and_full:
  "(waste_reduction sc = 0 \<and> solar_percentage sc = 0 \<and> transport_reduction sc = 0 \<and>
    commute_reduction sc = 0 \<and> source_category_filter sc = ''all''
      \<longrightarrow> df_filtered sc (sim_data sc df) = df) \<and>
   (waste_reduction sc = 100
      \<longrightarrow> list_all (\<lambda>r. source_category r = ''waste'' \<longrightarrow> emissions_kgCO2e r = 0)
            (df_filtered sc (sim_data sc df))) \<and>
   (solar_percentage sc = 100
      \<longrightarrow> list_all (\<lambda>r. source_category r = ''electricity'' \<longrightarrow> emissions_kgCO2e r = 0)
            (df_filtered sc (sim_data sc df))) \<and>
   (transport_reduction sc = 100
      \<longrightarrow> list_all (\<lambda>r. source_category r = ''transport'' \<longrightarrow> emissions_kgCO2e r = 0)
            (df_filtered sc (sim_data sc df))) \<and>
   (commute_reduction sc = 100
      \<longrightarrow> list_all (\<lambda>r. source_category r = ''commute'' \<longrightarrow> emissions_kgCO2e r = 0)
            (df_filtered sc (sim_data sc df)))"
proof -
  have zero: "df_filtered sc (sim_data sc df) = df"
    if "waste_reduction sc = 0" "solar_percentage sc = 0" "transport_reduction sc = 0"
      "commute_reduction sc = 0" "source_category_filter sc = ''all''"
  proof -
    have "spec_adjusted_row sc r = r" for r
      using that by (simp add: spec_adjusted_row_def)
    then have "map (spec_adjusted_row sc) df = df"
      by (simp add: map_idI)
    then show ?thesis
      using that by (simp add: sim_data_eq df_filtered_def)
  qed
  have sub: "set (df_filtered sc (sim_data sc df)) \<subseteq> spec_adjusted_row sc ` set df"
    by (auto simp: sim_data_eq df_filtered_def)
  have full: "list_all (\<lambda>r. source_category r = c \<longrightarrow> emissions_kgCO2e r = 0)
                (df_filtered sc (sim_data sc df))"
    if "\<And>r. source_category r = c \<Longrightarrow> emissions_kgCO2e (spec_adjusted_row sc r) = 0" for c
  proof -
    have "source_category (spec_adjusted_row sc r) = source_category r" for r
      by (simp add: spec_adjusted_row_def)
    with that sub show ?thesis
      unfolding list_all_iff by (metis (no_types, lifting) imageE subsetD)
  qed
  show ?thesis
    using zero by (auto intro!: full simp: spec_adjusted_row_def)
qed

theorem scenario_knobs_zero_and_full_witness:
  "waste_reduction example_zero_scenario = 0 \<and> solar_percentage example_zero_scenario = 0 \<and>
   transport_reduction example_zero_scenario = 0 \<and> commute_reduction example_zero_scenario = 0 \<and>
   source_category_filter example_zero_scenario = ''all'' \<and>
   df_filtered example_zero_scenario (sim_data example_zero_scenario example_rows) = example_rows \<and>
   map emissions_kgCO2e example_rows = [50, 100, 30, 20, 10] \<and>
   waste_reduction example_full_scenario = 100 \<and> solar_percentage example_full_scenario = 100 \<and>
   transport_reduction example_full_scenario = 100 \<and>
   commute_reduction example_full_scenario = 100 \<and>
   map source_category (df_filtered example_full_scenario (sim_data example_full_scenario example_rows)) =
     [''waste'', ''electricity'', ''transport'', ''commute'', ''heating''] \<and>
   map emissions_kgCO2e
     (df_filtered example_full_scenario (sim_data example_full_scenario example_rows)) =
     [0, 0, 0, 0, 10]"
proof -
  have z: "waste_reduction example_zero_scenario = 0 \<and> solar_percentage example_zero_scenario = 0 \<and>
    transport_reduction example_zero_scenario = 0 \<and> commute_reduction example_zero_scenario = 0 \<and>
    source_category_filter example_zero_scenario = ''all''"
    by (simp add: example_zero_scenario_def)
  have f: "waste_reduction example_full_scenario = 100" "solar_percentage example_full_scenario = 100"
    "transport_reduction example_full_scenario = 100" "commute_reduction example_full_scenario = 100"
    by (simp_all add: example_full_scenario_def)
  have cats: "map source_category
       (df_filtered example_full_scenario (sim_data example_full_scenario example_rows)) =
     [''waste'', ''electricity'', ''transport'', ''commute'', ''heating'']"
    by (simp add: df_filtered_def source_category_sim_data example_full_scenario_def
        example_rows_def stored_row_def example_entry_def)
  have other: "map emissions_kgCO2e
       (df_filtered example_full_scenario (sim_data example_full_scenario example_rows)) ! 4 = 10"
    by (simp add: df_filtered_def sim_data_def loc_mul_def example_full_scenario_def
        example_rows_def stored_row_def example_entry_def)
  have vals: "map emissions_kgCO2e example_rows = [50, 100, 30, 20, 10]"
    by (simp add: example_rows_def stored_row_def)
  obtain r1 r2 r3 r4 r5 where rs:
    "df_filtered example_full_scenario (sim_data example_full_scenario example_rows) =
       [r1, r2, r3, r4, r5]"
    using cats by (auto simp: map_eq_Cons_conv)
  from scenario_knobs_zero_and_full [of example_zero_scenario example_rows] z
  have zero: "df_filtered example_zero_scenario (sim_data example_zero_scenario example_rows) =
      example_rows"
    by blast
  from scenario_knobs_zero_and_full [of example_full_scenario example_rows] f cats other
  have "map emissions_kgCO2e
     (df_filtered example_full_scenario (sim_data example_full_scenario example_rows)) =
     [0, 0, 0, 0, 10]"
    unfolding rs by simp
  with z f zero cats vals show ?thesis by simp
qed

text \<open>
  C5. If, after the scenario adjustment, the optional category filter and the grouping by the
  exact date string, fewer than two distinct dates remain, \<^verbatim>\<open>get_forecast\<close> raises the
  HTTP 400 "Not enough data for forecast" exception (the spec's \<^verbatim>\<open>InsufficientDataError\<close>),
  whatever the model would do; so it does for two records that share one date.
\<close>

theorem forecast_insufficient_data:
  assumes "card (date ` set (df_filtered sc (sim_data sc (select_business b user db)))) < 2"
  shows "get_forecast prophet b sc user db =
           Inl (HTTPException 400 ''Not enough data for forecast'')"
  using assms
  by (simp add: get_forecast_def Let_def df_prophet_def length_groupby_sum)

theorem forecast_insufficient_data_witness:
  "card (date ` set (df_filtered example_scenario
           (sim_data example_scenario (select_business ''biz1'' DevUser_default example_db)))) < 2 \<and>
   length (select_business ''biz1'' DevUser_default example_db) = 2 \<and>
   map emissions_kgCO2e (df_filtered example_scenario
           (sim_data example_scenario (select_business ''biz1'' DevUser_default example_db))) =
     [50, 0] \<and>
   get_forecast (\<lambda>series. Inr series) ''biz1'' example_scenario DevUser_default example_db =
     Inl (HTTPException 400 ''Not enough data for forecast'')"
proof -
  have c: "card (date ` set (df_filtered example_scenario
           (sim_data example_scenario (select_business ''biz1'' DevUser_default example_db)))) < 2"
    by (simp add: example_sim_biz1 stored_row_def example_entry_def)
  have l: "length (select_business ''biz1'' DevUser_default example_db) = 2"
    by (simp add: example_select_biz1)
  have v: "map emissions_kgCO2e (df_filtered example_scenario
           (sim_data example_scenario (select_business ''biz1'' DevUser_default example_db))) =
     [50, 0]"
    by (simp add: example_sim_biz1 stored_row_def)
  from forecast_insufficient_data [OF c] c l v show ?thesis
    by simp
qed

section \<open>Requests without matching records\<close>

text \<open>
  C6. When the query of the handlers,
  \<^verbatim>\<open>SELECT * FROM emissions WHERE business_id = ? AND user_id = ?\<close> with the requested
  \<open>business_id\<close> and the caller's \<open>user_id\<close>, returns no row, \<^verbatim>\<open>get_dashboard\<close>,
  \<^verbatim>\<open>get_insights\<close> and \<^verbatim>\<open>generate_pdf_report\<close> raise an HTTP 404 exception (the spec's
  \<^verbatim>\<open>NotFoundError\<close>) and \<^verbatim>\<open>get_forecast\<close> raises the HTTP 400 "Not enough data for
  forecast" exception (\<^verbatim>\<open>InsufficientDataError\<close>); records of the same business under another
  \<open>user_id\<close> do not change this. The match is SQLite's: against a \<open>business_id\<close> column of
  numeric affinity the requested text is compared as a number when it is one
  (\<open>select_business_numeric_column\<close>).
\<close>

theorem no_matching_records_errors:
  assumes "select_business b user db = []"
  shows "get_dashboard b user db = Inl (HTTPException 404 ''No data found for this business'') \<and>
         get_insights b user db = Inl (HTTPException 404 ''No data found for this business'') \<and>
         (generate_pdf_report b user db :: error + 'doc) =
           Inl (HTTPException 404 ''No data found for report'') \<and>
         get_forecast prophet b sc user db =
           Inl (HTTPException 400 ''Not enough data for forecast'')"
  using assms
  by (simp add: get_dashboard_def get_insights_def generate_pdf_report_def get_forecast_def)

theorem no_matching_records_errors_witness:
  "select_business ''biz2'' DevUser_default example_db = [] \<and>
   ''biz2'' \<in> set (map business_id (emissions example_db)) \<and>
   select_business ''43'' DevUser_default example_numeric_db = [] \<and>
   get_dashboard ''biz2'' DevUser_default example_db =
     Inl (HTTPException 404 ''No data found for this business'') \<and>
   get_insights ''biz2'' DevUser_default example_db =
     Inl (HTTPException 404 ''No data found for this business'') \<and>
   (generate_pdf_report ''biz2'' DevUser_default example_db :: error + unit) =
     Inl (HTTPException 404 ''No data found for report'') \<and>
   get_forecast (\<lambda>series. Inr series) ''biz2'' example_zero_scenario DevUser_default example_db =
     Inl (HTTPException 400 ''Not enough data for forecast'') \<and>
   get_dashboard ''43'' DevUser_default example_numeric_db =
     Inl (HTTPException 404 ''No data found for this business'')"
proof -
  have m: "''biz2'' \<in> set (map business_id (emissions example_db))"
    by (simp add: example_db_def stored_row_def example_entry_def)
  have n: "select_business ''43'' DevUser_default example_numeric_db = []"
    by (simp add: example_numeric_db_eq select_business_def text_param_equals_def
        example_numeric_43 example_numeric_42_stored stored_row_def example_entry_def)
  note w1 = no_matching_records_errors
    [OF example_select_biz2, where 'doc = unit and prophet = "\<lambda>series. Inr series"
      and sc = example_zero_scenario]
  note w2 = no_matching_records_errors
    [OF n, where 'doc = unit and prophet = "\<lambda>series. Inr series" and sc = example_zero_scenario,
      THEN conjunct1]
  from w1 w2 m n example_select_biz2
  show ?thesis by simp
qed

section \<open>Recommendations\<close>

text \<open>
  C10. The lookup itself is as claimed (\<open>get_ai_recommendation_default\<close>,
  \<open>get_ai_recommendation_activity_irrelevant\<close>), and \<^verbatim>\<open>get_insights\<close> returns the
  default recommendation for a top category other than electricity, transport and waste
  (\<open>get_insights_default_recommendation\<close>). \<^verbatim>\<open>generate_pdf_report\<close> computes the same
  recommendation but never returns it: on a store made by one \<^verbatim>\<open>manual_entry\<close> call with a
  commute record, insights returns the default recommendation, the report computes it, and then
  raises \<^verbatim>\<open>NameError\<close> at line 321.
\<close>

theorem report_raises_NameError:
  "emissions example_commute_db =
     [stored_row (example_entry ''biz1'' ''bakery'' ''2024-01'' ''commute'' ''bus'' 300 1 ''3'')
        300 ''1''] \<and>
   (\<exists>r. get_insights ''biz1'' DevUser_default example_commute_db = Inr r \<and>
        recommendation r = default_recommendation) \<and>
   report_recommendation (select_business ''biz1'' DevUser_default example_commute_db) =
     Inr default_recommendation \<and>
   (generate_pdf_report ''biz1'' DevUser_default example_commute_db :: error + unit) =
     Inl (NameError ''name 'Response' is not defined'')"
proof -
  have ta: "top_activity
      [stored_row (example_entry ''biz1'' ''bakery'' ''2024-01'' ''commute'' ''bus'' 300 1 ''3'')
         300 ''1''] = Inr ''bus''"
    by (simp add: top_activity_def groupby_sum_def stored_row_def example_entry_def)
  have tc: "top_source_category
      [stored_row (example_entry ''biz1'' ''bakery'' ''2024-01'' ''commute'' ''bus'' 300 1 ''3'')
         300 ''1''] ''bus'' = Inr ''commute''"
    by (simp add: top_source_category_def stored_row_def example_entry_def)
  have i: "\<exists>r. get_insights ''biz1'' DevUser_default example_commute_db = Inr r \<and>
        recommendation r = default_recommendation"
    by (rule get_insights_default_recommendation [OF example_commute_select ta tc]) simp_all
  have e: "emissions example_commute_db =
     [stored_row (example_entry ''biz1'' ''bakery'' ''2024-01'' ''commute'' ''bus'' 300 1 ''3'')
        300 ''1'']"
    by (simp add: example_commute_db_def manual_entry_def Let_def DevUser_default_def str_int_1
        example_entry_def init_db_def)
  have r: "report_recommendation (select_business ''biz1'' DevUser_default example_commute_db) =
     Inr default_recommendation"
    unfolding example_commute_select report_recommendation_def example_commute_groupby
    by (simp add: top_category_def get_ai_recommendation_eq)
  have g: "(generate_pdf_report ''biz1'' DevUser_default example_commute_db :: error + unit) =
     Inl (NameError ''name 'Response' is not defined'')"
    unfolding generate_pdf_report_def Let_def r
    by (simp add: example_commute_select)
  from e i r g show ?thesis by simp
qed

end
